theory Spec2Isabelle
  imports Complex_Main
begin

section \<open>The per-trial entry script \<open>scripts/train.py\<close>\<close>

text \<open>
  The notebook writes \<open>scripts/train.py\<close> with \<open>%%writefile\<close>. The script declares
  two options with \<open>argparse\<close>, joins three directories under the datastore directory
  and calls \<open>retrain.train\<close> once.

  A string is a list of characters with code points below 256.

  Python floats: a finite float is represented by the real number it is; the script
  performs no arithmetic on the learning rate, it only hands it on. \<open>float\<close> also
  accepts \<open>inf\<close>, \<open>-inf\<close> and \<open>nan\<close>.
\<close>

datatype pyfloat = Finite real | PosInf | NegInf | NaN

text \<open>
  The literal \<open>0.01\<close> of \<open>default=0.01\<close> is the double nearest to one hundredth,
  \<open>5764607523034235 / 2^59\<close>.
\<close>

definition default_learning_rate :: pyfloat where
  "default_learning_rate = Finite (5764607523034235 / 2 ^ 59)"

text \<open>
  The two ways the script can stop before the training call. \<open>SystemExit\<close>:
  \<open>parser.parse_args()\<close> does not return; it ends the script with status 2 after an
  error (an unrecognized argument, an option without its value, a value that \<open>float\<close>
  rejects) or with status 0 after printing the help. The status is not recorded.
  \<open>TypeError\<close>: \<open>os.path.join\<close> receives something that is not a path, because
  \<open>--datastore-dir\<close> was not given and has no default.
\<close>

datatype script_error = SystemExit | TypeError

text \<open>
  What a \<open>store\<close> action leaves in the namespace: the converted value, or the empty
  list (see \<open>take_action\<close>).
\<close>

datatype 'a argvalue = Single 'a | EmptyList

text \<open>The namespace \<open>args\<close> returned by \<open>parser.parse_args()\<close>.\<close>

record namespace =
  args_datastore_dir :: "string argvalue option"
  args_learning_rate :: "pyfloat argvalue"

subsection \<open>\<open>argparse\<close> on the two declared options\<close>

text \<open>
  The actions of the parser: \<open>-h\<close>/\<open>--help\<close>, which \<open>ArgumentParser()\<close> adds, and the
  two \<open>add_argument\<close> calls of the script. \<open>option_string_actions\<close> is the parser's
  table \<open>_option_string_actions\<close>.
\<close>

datatype action = Help | DatastoreDir | LearningRate

definition option_string_actions :: "(string \<times> action) list" where
  "option_string_actions =
     [(''-h'', Help), (''--help'', Help),
      (''--datastore-dir'', DatastoreDir), (''--learning-rate'', LearningRate)]"

definition startswith :: "string \<Rightarrow> string \<Rightarrow> bool" where
  "startswith s pre = (take (length pre) s = pre)"

text \<open>The parts of a string before and after its first \<open>=\<close>.\<close>

definition before_eq :: "string \<Rightarrow> string" where
  "before_eq s = takeWhile (\<lambda>c. c \<noteq> CHR ''='') s"

definition after_eq :: "string \<Rightarrow> string option" where
  "after_eq s = (case dropWhile (\<lambda>c. c \<noteq> CHR ''='') s of [] \<Rightarrow> None | c # e \<Rightarrow> Some e)"

definition is_digit :: "char \<Rightarrow> bool" where
  "is_digit c = (c \<in> set ''0123456789'')"

text \<open>
  The parser's \<open>_negative_number_matcher\<close>, the regular expression
  \<open>^-\d+$|^-\d*\.\d+$\<close>; \<open>$\<close> also matches before a newline that ends the string.
\<close>

definition negative_number_matcher :: "string \<Rightarrow> bool" where
  "negative_number_matcher s =
     (case (if s \<noteq> [] \<and> last s = CHR 0x0A then butlast s else s) of
        [] \<Rightarrow> False
      | c # r \<Rightarrow>
          c = CHR ''-'' \<and>
          (let ds = takeWhile is_digit r; rest = dropWhile is_digit r
           in (ds \<noteq> [] \<and> rest = []) \<or>
              (case rest of
                 [] \<Rightarrow> False
               | p # ds' \<Rightarrow> p = CHR ''.'' \<and> ds' \<noteq> [] \<and> list_all is_digit ds')))"

text \<open>
  \<open>_get_option_tuples\<close>: the actions an abbreviated option string can stand for, each
  with the explicit argument the string carries. A string that starts with two dashes
  is cut at its first \<open>=\<close> and stands for every option that starts with the part before
  it; a string that starts with one dash stands for the one-letter option of its first
  two characters, the rest being that option's argument.
\<close>

definition get_option_tuples :: "string \<Rightarrow> (action \<times> string option) list" where
  "get_option_tuples s =
     (case s of
        c0 # c1 # r \<Rightarrow>
          if c1 = CHR ''-'' then
            map (\<lambda>ka. (snd ka, after_eq s))
              (filter (\<lambda>ka. startswith (fst ka) (before_eq s)) option_string_actions)
          else
            concat (map (\<lambda>ka. if fst ka = take 2 s then [(snd ka, Some (drop 2 s))]
                                else if startswith (fst ka) s then [(snd ka, None)]
                                else [])
                      option_string_actions)
      | _ \<Rightarrow> [])"

text \<open>
  \<open>_parse_optional\<close>: what one string of the command line is. \<open>Positional\<close> is the
  result \<open>None\<close> (an argument, \<open>A\<close> in the parser's pattern); \<open>Ambiguous\<close> is the
  error "ambiguous option"; \<open>Option_tuple\<close> carries the action (\<open>None\<close> for an
  option that the parser does not know) and the explicit argument, if any.
\<close>

datatype parsed_optional =
    Positional
  | Ambiguous
  | Option_tuple "action option" "string option"

definition parse_optional :: "string \<Rightarrow> parsed_optional" where
  "parse_optional s =
     (if s = [] then Positional
      else if hd s \<noteq> CHR ''-'' then Positional
      else if map_of option_string_actions s \<noteq> None
        then Option_tuple (map_of option_string_actions s) None
      else if length s = 1 then Positional
      else if CHR ''='' \<in> set s \<and> map_of option_string_actions (before_eq s) \<noteq> None
        then Option_tuple (map_of option_string_actions (before_eq s)) (after_eq s)
      else
        (case get_option_tuples s of
           [] \<Rightarrow>
             if negative_number_matcher s then Positional
             else if CHR '' '' \<in> set s then Positional
             else Option_tuple None None
         | [tup] \<Rightarrow> Option_tuple (Some (fst tup)) (snd tup)
         | _ \<Rightarrow> Ambiguous))"

text \<open>
  \<open>take_action\<close> for an option and the one string given to it: \<open>_get_values\<close> converts
  the string with the option's \<open>type\<close> and the \<open>store\<close> action sets the attribute.
  \<open>type=str\<close> keeps the string. \<open>type=float\<close> is the parameter \<open>float_conv\<close>
  (\<open>None\<close> where \<open>float\<close> raises \<open>ValueError\<close>, which \<open>argparse\<close> reports as an
  error). The help action prints the help and exits.

  Releases of \<open>argparse\<close> differ on one point that this parser can reach. The older
  ones, among them that of Python 3.6, the version of the notebook's kernel, remove a
  value \<open>--\<close> from the strings of every action before converting them, so that
  \<open>--learning-rate=--\<close> stores the empty list; the later ones do so for positional
  arguments only and convert \<open>--\<close> like any other value. \<open>strip\<close> is \<open>True\<close> for the
  older behaviour.
\<close>

definition take_action :: "(string \<Rightarrow> pyfloat option) \<Rightarrow> bool \<Rightarrow> action \<Rightarrow> string \<Rightarrow> namespace \<Rightarrow> script_error + namespace" where
  "take_action float_conv strip a e ns =
     (case a of
        Help \<Rightarrow> Inl SystemExit
      | DatastoreDir \<Rightarrow>
          Inr (ns\<lparr>args_datastore_dir :=
                    Some (if strip \<and> e = ''--'' then EmptyList else Single e)\<rparr>)
      | LearningRate \<Rightarrow>
          if strip \<and> e = ''--'' then Inr (ns\<lparr>args_learning_rate := EmptyList\<rparr>)
          else
            (case float_conv e of
               None \<Rightarrow> Inl SystemExit
             | Some v \<Rightarrow> Inr (ns\<lparr>args_learning_rate := Single v\<rparr>)))"

text \<open>
  A string that an option takes as its value when it follows the option: an \<open>A\<close> of
  the parser's pattern, that is, not the separator \<open>--\<close> and not taken for an option
  by \<open>_parse_optional\<close>.
\<close>

definition is_argument :: "string \<Rightarrow> bool" where
  "is_argument v = (v \<noteq> ''--'' \<and> parse_optional v = Positional)"


text \<open>
  \<open>consume_optional\<close> of \<open>_parse_known_args\<close>, for the string \<open>t\<close> at the current
  index and the strings \<open>ts\<close> after it: the action to take, the string it is given and
  the number of strings it takes from \<open>ts\<close>; \<open>None\<close> where \<open>parse_args\<close> cannot
  return any more. For a parser without positional arguments, every string that is not
  an option or the value of one is an extra, and \<open>parse_args\<close> ends with "unrecognized
  arguments" when there is an extra: that is the case of \<open>--\<close> and all that follows
  it, of a string that \<open>_parse_optional\<close> takes for an argument, and of an unknown
  option. An option with an explicit argument (\<open>--learning-rate=0.5\<close>) takes it. The
  help takes nothing. A \<open>store\<close> option without explicit argument takes the next
  string, which has to be there and to be an argument, or the parser ends with
  "expected one argument".
\<close>

definition consume_optional :: "string \<Rightarrow> string list \<Rightarrow> (action \<times> string \<times> nat) option" where
  "consume_optional t ts =
     (if t = ''--'' then None
      else
        (case parse_optional t of
           Positional \<Rightarrow> None
         | Ambiguous \<Rightarrow> None
         | Option_tuple None e \<Rightarrow> None
         | Option_tuple (Some a) (Some e) \<Rightarrow> Some (a, e, 0)
         | Option_tuple (Some a) None \<Rightarrow>
             if a = Help then Some (Help, [], 0)
             else
               (case ts of
                  [] \<Rightarrow> None
                | v # ts' \<Rightarrow> if is_argument v then Some (a, v, 1) else None)))"

text \<open>
  The loop of \<open>_parse_known_args\<close> over the command line: one option after the other,
  each with its value, until the strings are used up. Whatever follows the first error
  or the help cannot make \<open>parse_args\<close> return, so the loop stops there.
\<close>

fun consume :: "(string \<Rightarrow> pyfloat option) \<Rightarrow> bool \<Rightarrow> string list \<Rightarrow> namespace \<Rightarrow> script_error + namespace" where
  "consume float_conv strip [] ns = Inr ns"
| "consume float_conv strip (t # ts) ns =
     (case consume_optional t ts of
        None \<Rightarrow> Inl SystemExit
      | Some (a, e, arg_count) \<Rightarrow>
          (case take_action float_conv strip a e ns of
             Inl err \<Rightarrow> Inl err
           | Inr ns' \<Rightarrow> consume float_conv strip (drop arg_count ts) ns'))"

text \<open>
  \<open>parser.parse_args()\<close> on the arguments of the command line (\<open>sys.argv[1:]\<close>). The
  namespace starts with the defaults: \<open>None\<close> for \<open>datastore_dir\<close>, which declares no
  default, and the float \<open>0.01\<close> for \<open>learning_rate\<close>, stored as it is.
\<close>

definition parse_args :: "(string \<Rightarrow> pyfloat option) \<Rightarrow> bool \<Rightarrow> string list \<Rightarrow> script_error + namespace" where
  "parse_args float_conv strip argv =
     consume float_conv strip argv
       \<lparr>args_datastore_dir = None, args_learning_rate = Single default_learning_rate\<rparr>"

subsection \<open>The script\<close>





section \<open>The HyperDrive job the notebook submits\<close>

text \<open>
  \<open>loguniform\<close> and \<open>uniform\<close> are parameter expressions of the \<open>azureml\<close> SDK
  (\<open>azureml.train.hyperdrive\<close>); the notebook imports both and uses the first.
\<close>

datatype parameter_expression = Loguniform real real | Uniform real real

datatype primary_metric_goal = MAXIMIZE | MINIMIZE

text \<open>\<open>BanditPolicy(slack_factor = ..., evaluation_interval = ...)\<close>.\<close>

record bandit_policy =
  slack_factor :: real
  evaluation_interval :: nat

text \<open>
  \<open>HyperDriveRunConfig(...)\<close>, without the estimator (the \<open>TensorFlow\<close> object that
  names \<open>train.py\<close> as the entry script).
\<close>

record hyperdrive_run_config =
  hyperparameter_sampling :: "(string \<times> parameter_expression) list"
  policy :: bandit_policy
  primary_metric_name :: string
  primary_metric_goal :: primary_metric_goal
  max_total_runs :: nat
  max_concurrent_runs :: nat

text \<open>\<open>ps = RandomParameterSampling({'--learning-rate': loguniform(-15, -3)})\<close>\<close>

definition ps :: "(string \<times> parameter_expression) list" where
  "ps = [(''--learning-rate'', Loguniform (- 15) (- 3))]"

text \<open>\<open>early_termination_policy = BanditPolicy(slack_factor = 0.15, evaluation_interval=2)\<close>\<close>

definition early_termination_policy :: bandit_policy where
  "early_termination_policy = \<lparr>slack_factor = 15 / 100, evaluation_interval = 2\<rparr>"

definition hyperdrive_run_config :: hyperdrive_run_config where
  "hyperdrive_run_config =
     \<lparr>hyperparameter_sampling = ps,
      policy = early_termination_policy,
      primary_metric_name = ''validation_accuracy'',
      primary_metric_goal = MAXIMIZE,
      max_total_runs = 20,
      max_concurrent_runs = 4\<rparr>"

text \<open>
  One draw from a parameter expression. The SDK defines \<open>loguniform(min_value,
  max_value)\<close> as a value drawn according to \<open>exp(uniform(min_value, max_value))\<close>, so
  that the logarithm of the value is uniformly distributed, and \<open>uniform(min_value,
  max_value)\<close> as a value uniformly distributed between the two. The randomness is the
  argument \<open>u\<close>, the position of the uniform draw between the bounds (\<open>0 \<le> u \<le> 1\<close>).
\<close>

fun draw :: "parameter_expression \<Rightarrow> real \<Rightarrow> real" where
  "draw (Uniform min_value max_value) u = min_value + u * (max_value - min_value)"
| "draw (Loguniform min_value max_value) u = exp (min_value + u * (max_value - min_value))"

text \<open>
  A sample of the search space: one value for each named hyperparameter, here for the
  one whose name is asked (\<open>None\<close> when the space does not declare it).
\<close>

definition sample :: "(string \<times> parameter_expression) list \<Rightarrow> string \<Rightarrow> real \<Rightarrow> real option" where
  "sample space name u = map_option (\<lambda>e. draw e u) (map_of space name)"

section \<open>The notebook's cells\<close>

text \<open>
  The code cells in the order of the notebook. The first three look at the images and
  train once locally; \<open>WriteTrainScript\<close> is the \<open>%%writefile\<close> cell.
\<close>

datatype cell =
    ListImages
  | PlotSampleImages
  | TrainLocally
  | GetWorkspace
  | WriteTrainScript
  | SubmitHyperDrive
  | ShowSubmittedRun
  | SelectCompletedRun
  | ShowCompletedRun
  | RegisterBestRun

datatype notebook_error = NameError

text \<open>
  \<open>scripts/config.py\<close> (the class \<open>AML\<close>) is not part of the notebook; the names it
  gives are parameters.
\<close>

record aml_config =
  workspace_name :: string
  experiment_name :: string

text \<open>
  What \<open>experiment.submit\<close> returns: the run's id, given by the service, and whatever
  the service holds for the run (its child runs and their metrics), which the notebook
  only hands to the widget.
\<close>

record 'r hyperdrive_run =
  hd_id :: string
  hd_results :: 'r

text \<open>What \<open>register_model\<close> registers: a model of a run, under a name.\<close>

record registered_model =
  source_experiment :: string
  source_run :: string
  model_name :: string
  model_path :: string

text \<open>
  The variables of the kernel that the cells after \<open>GetWorkspace\<close> read or write. A
  variable is \<open>None\<close> until a cell binds it. \<open>best_run\<close> is the handle
  \<open>Run(experiment, run_id=...)\<close>: an experiment and a run id. The variable
  \<open>experiment\<close> is the field \<open>experiment'\<close>.
\<close>

record 'r kernel =
  ws :: "string option"
  experiment' :: "string option"
  submitted_config :: "hyperdrive_run_config option"
  hd_run :: "'r hyperdrive_run option"
  hd_run_id :: "string option"
  best_run :: "(string \<times> string) option"
  model :: "registered_model option"

definition fresh_kernel :: "'r kernel" where
  "fresh_kernel =
     \<lparr>ws = None, experiment' = None, submitted_config = None, hd_run = None,
      hd_run_id = None, best_run = None, model = None\<rparr>"

text \<open>
  Running one cell. \<open>answer\<close> is what the service returns to \<open>experiment.submit\<close>. A
  cell that reads an unbound variable raises \<open>NameError\<close> and changes nothing.
\<close>

fun run_cell :: "aml_config \<Rightarrow> 'r hyperdrive_run \<Rightarrow> cell \<Rightarrow> 'r kernel \<Rightarrow> notebook_error + 'r kernel" where
  "run_cell aml answer ListImages k = Inr k"
| "run_cell aml answer PlotSampleImages k = Inr k"
| "run_cell aml answer TrainLocally k = Inr k"
| "run_cell aml answer GetWorkspace k =
     Inr (k\<lparr>ws := Some (workspace_name aml), experiment' := Some (experiment_name aml)\<rparr>)"
| "run_cell aml answer WriteTrainScript k = Inr k"
| "run_cell aml answer SubmitHyperDrive k =
     (case ws k of
        None \<Rightarrow> Inl NameError
      | Some w \<Rightarrow>
          (case experiment' k of
             None \<Rightarrow> Inl NameError
           | Some e \<Rightarrow>
               Inr (k\<lparr>submitted_config := Some hyperdrive_run_config,
                      hd_run := Some answer,
                      hd_run_id := Some (hd_id answer)\<rparr>)))"
| "run_cell aml answer ShowSubmittedRun k =
     (case experiment' k of
        None \<Rightarrow> Inl NameError
      | Some e \<Rightarrow> (case hd_run_id k of None \<Rightarrow> Inl NameError | Some i \<Rightarrow> Inr k))"
| "run_cell aml answer SelectCompletedRun k =
     Inr (k\<lparr>hd_run_id := Some ''ConnectExperiment_1542152717287''\<rparr>)"
| "run_cell aml answer ShowCompletedRun k =
     (case experiment' k of
        None \<Rightarrow> Inl NameError
      | Some e \<Rightarrow> (case hd_run_id k of None \<Rightarrow> Inl NameError | Some i \<Rightarrow> Inr k))"
| "run_cell aml answer RegisterBestRun k =
     (case experiment' k of
        None \<Rightarrow> Inl NameError
      | Some e \<Rightarrow>
          Inr (k\<lparr>best_run := Some (e, ''ConnectExperiment_1542152717287_15''),
                 model :=
                   Some \<lparr>source_experiment = e,
                         source_run = ''ConnectExperiment_1542152717287_15'',
                         model_name = ''pet-detector'',
                         model_path = ''outputs''\<rparr>\<rparr>))"

text \<open>Running cells one after another; the first error stops the run.\<close>

fun run_cells :: "aml_config \<Rightarrow> 'r hyperdrive_run \<Rightarrow> cell list \<Rightarrow> 'r kernel \<Rightarrow> notebook_error + 'r kernel" where
  "run_cells aml answer [] k = Inr k"
| "run_cells aml answer (c # cs) k =
     (case run_cell aml answer c k of
        Inl e \<Rightarrow> Inl e
      | Inr k' \<Rightarrow> run_cells aml answer cs k')"

definition notebook :: "cell list" where
  "notebook =
     [ListImages, PlotSampleImages, TrainLocally, GetWorkspace, WriteTrainScript,
      SubmitHyperDrive, ShowSubmittedRun, SelectCompletedRun, ShowCompletedRun,
      RegisterBestRun]"

text \<open>The notebook run from its first cell to its last on a fresh kernel.\<close>

definition run_all :: "aml_config \<Rightarrow> 'r hyperdrive_run \<Rightarrow> notebook_error + 'r kernel" where
  "run_all aml answer = run_cells aml answer notebook fresh_kernel"

section \<open>Early termination of trials\<close>

text \<open>
  The notebook only configures the bandit policy; the service that applies it to the
  running trials is not part of the repository. The definitions of this section follow
  sections 3 and 4.3 of the specification.
\<close>

datatype status = PENDING | RUNNING | COMPLETED | CANCELLED | FAILED

text \<open>
  Modelled from the spec: the trial record of section 3, which the sweep service keeps
  and the repository does not hold. An observation is a step and a value of the
  primary metric; the list is in the order the observations were applied.
\<close>

record trial =
  trial_id :: nat
  hyperparameter :: real
  observations :: "(nat \<times> real) list"
  status :: status
  final_metric :: "real option"

text \<open>
  Modelled from the spec: the threshold of the early-termination policy, which the
  sweep service computes: \<open>best_metric_so_far / (1 + S)\<close> when maximizing,
  \<open>best_metric_so_far * (1 + S)\<close> when minimizing.
\<close>

definition threshold :: "primary_metric_goal \<Rightarrow> real \<Rightarrow> real \<Rightarrow> real" where
  "threshold g S best =
     (case g of MAXIMIZE \<Rightarrow> best / (1 + S) | MINIMIZE \<Rightarrow> best * (1 + S))"

text \<open>
  Modelled from the spec: the comparison of the sweep service's policy, "worse than",
  a strict inequality in the direction of the goal (ties are not cancelled).
\<close>

definition worse :: "primary_metric_goal \<Rightarrow> real \<Rightarrow> real \<Rightarrow> bool" where
  "worse g m t = (case g of MAXIMIZE \<Rightarrow> m < t | MINIMIZE \<Rightarrow> t < m)"

text \<open>
  Modelled from the spec: the sweep service's "latest reported metric at that step" of a
  trial, the value of the last observation applied for step \<open>k\<close>; \<open>None\<close> for a trial
  that has not reported at that step, which is exempt from the check.
\<close>

definition latest_metric_at :: "nat \<Rightarrow> trial \<Rightarrow> real option" where
  "latest_metric_at k t =
     (case filter (\<lambda>ob. fst ob = k) (observations t) of
        [] \<Rightarrow> None
      | ob # obs \<Rightarrow> Some (snd (last (ob # obs))))"

text \<open>
  Modelled from the spec: the sweep service's best-so-far value, the best metric
  reported at or before step \<open>k\<close> (no lookahead) by any trial that has not failed (a
  failed trial does not count toward it); \<open>None\<close> while nothing has been reported.
\<close>

definition best_metric_so_far :: "primary_metric_goal \<Rightarrow> nat \<Rightarrow> trial list \<Rightarrow> real option" where
  "best_metric_so_far g k ts =
     (case concat (map (\<lambda>t. map snd (filter (\<lambda>ob. fst ob \<le> k) (observations t)))
                     (filter (\<lambda>t. status t \<noteq> FAILED) ts)) of
        [] \<Rightarrow> None
      | v # vs \<Rightarrow> Some (foldl (\<lambda>a b. if worse g a b then b else a) v vs))"

text \<open>
  Modelled from the spec: the early-termination check of section 4.3, run by the sweep
  service. At a step that is a multiple of the evaluation interval, every running trial
  whose latest reported metric at that step is worse than the threshold is cancelled;
  at any other step nothing happens.
\<close>

definition early_termination :: "primary_metric_goal \<Rightarrow> bandit_policy \<Rightarrow> nat \<Rightarrow> trial list \<Rightarrow> trial list" where
  "early_termination g p k ts =
     (if evaluation_interval p dvd k then
        (case best_metric_so_far g k ts of
           None \<Rightarrow> ts
         | Some best \<Rightarrow>
             map (\<lambda>t. if status t = RUNNING \<and>
                          (case latest_metric_at k t of
                             None \<Rightarrow> False
                           | Some m \<Rightarrow> worse g m (threshold g (slack_factor p) best))
                       then t\<lparr>status := CANCELLED\<rparr> else t) ts)
      else ts)"

section \<open>Properties of the entry script\<close>

text \<open>
  The default learning rate is a double (a significand of 53 bits times \<open>2^-59\<close>)
  within half a unit in the last place of one hundredth: the double written \<open>0.01\<close>.
\<close>

lemma default_learning_rate_double:
  "default_learning_rate = Finite (5764607523034235 / 2 ^ 59)
   \<and> \<bar>5764607523034235 / 2 ^ 59 - 1 / 100\<bar> \<le> (1 / 2 ^ 60 :: real)
   \<and> (2::real) ^ 52 \<le> 5764607523034235 \<and> (5764607523034235::real) < 2 ^ 53"
  by (simp add: default_learning_rate_def)

subsection \<open>The loop of the parser\<close>












subsection \<open>The learning rate of the training call\<close>




text \<open>
  Further command lines: the value given with \<open>=\<close>, an abbreviation, a value that
  \<open>float\<close> rejects, an option without its value.
\<close>

lemma parse_args_examples:
  "parse_args [''-inf'' \<mapsto> NegInf] strip [''--learning-rate=-inf''] =
     Inr \<lparr>args_datastore_dir = None, args_learning_rate = Single NegInf\<rparr>"
  "parse_args [''0.5'' \<mapsto> Finite (1 / 2)] strip [''--l'', ''0.5''] =
     Inr \<lparr>args_datastore_dir = None, args_learning_rate = Single (Finite (1 / 2))\<rparr>"
  "parse_args [''0.5'' \<mapsto> Finite (1 / 2)] strip [''--learning-rate'', ''abc''] = Inl SystemExit"
  "parse_args f strip [''--learning-rate''] = Inl SystemExit"
  "parse_args f strip [''--datastore-dir'', ''/mnt/data'', ''extra''] = Inl SystemExit"
  "parse_args f strip [''-h''] = Inl SystemExit"
  by (simp_all add: parse_args_def consume_optional_def parse_optional_def is_argument_def
      option_string_actions_def take_action_def get_option_tuples_def startswith_def
      before_eq_def after_eq_def negative_number_matcher_def is_digit_def)

section \<open>Properties of the notebook\<close>

text \<open>
  Claim C9. The model registered under the name \<open>pet-detector\<close> is a model of the run
  \<open>ConnectExperiment_1542152717287_15\<close>, a run id written in the notebook, whatever
  the service answers to the submission of the HyperDrive job earlier in the notebook:
  the notebook run from top to bottom ends with that registration for every answer,
  and the registering cell, run on any kernel state on which it succeeds, registers
  that run.
\<close>

theorem register_model_fixed_run:
  "(\<exists>k. run_all aml answer = Inr k \<and> hd_run k = Some answer \<and>
        best_run k = Some (experiment_name aml, ''ConnectExperiment_1542152717287_15'') \<and>
        model k = Some \<lparr>source_experiment = experiment_name aml,
                         source_run = ''ConnectExperiment_1542152717287_15'',
                         model_name = ''pet-detector'',
                         model_path = ''outputs''\<rparr>)
   \<and> (\<forall>k k'. run_cell aml answer RegisterBestRun k = Inr k' \<longrightarrow>
        (\<exists>e. best_run k' = Some (e, ''ConnectExperiment_1542152717287_15'') \<and>
             model k' = Some \<lparr>source_experiment = e,
                              source_run = ''ConnectExperiment_1542152717287_15'',
                              model_name = ''pet-detector'',
                              model_path = ''outputs''\<rparr>))"
  by (auto simp: run_all_def notebook_def fresh_kernel_def split: option.splits)

text \<open>
  The registering cell on a kernel that holds a submitted run
  \<open>ConnectExperiment_1600000000000\<close> with one child run of accuracy 0.95.
\<close>

theorem register_model_fixed_run_witness:
  "\<exists>k. run_cell \<lparr>workspace_name = ''ws'', experiment_name = ''ConnectExperiment''\<rparr>
          \<lparr>hd_id = ''ConnectExperiment_1600000000000'', hd_results = [(7::nat, 95 / 100 :: real)]\<rparr>
          RegisterBestRun
          \<lparr>ws = Some ''ws'', experiment' = Some ''ConnectExperiment'',
           submitted_config = Some hyperdrive_run_config,
           hd_run = Some \<lparr>hd_id = ''ConnectExperiment_1600000000000'', hd_results = [(7, 95 / 100)]\<rparr>,
           hd_run_id = Some ''ConnectExperiment_1600000000000'',
           best_run = None, model = None\<rparr> = Inr k
       \<and> map_option source_run (model k) = Some ''ConnectExperiment_1542152717287_15''"
  using register_model_fixed_run
          [of "\<lparr>workspace_name = ''ws'', experiment_name = ''ConnectExperiment''\<rparr>"
              "\<lparr>hd_id = ''ConnectExperiment_1600000000000'', hd_results = [(7::nat, 95 / 100 :: real)]\<rparr>"]
  by simp

text \<open>The registering cell needs the cell that binds \<open>experiment\<close> to have run.\<close>

lemma register_needs_experiment:
  "run_cell aml answer RegisterBestRun fresh_kernel = Inl NameError"
  by (simp add: fresh_kernel_def)

section \<open>The learning rates the submitted job samples\<close>

lemma exp_6_less_1000: "exp (6::real) < 1000"
proof -
  have "exp (6::real) = exp 1 ^ 6"
    using exp_of_nat_mult [of 6 "1::real"] by simp
  also have "\<dots> \<le> 3 ^ 6"
    by (rule power_mono) (simp_all add: exp_le)
  finally show ?thesis by simp
qed

lemma one_thousandth_less_exp_minus_6: "1 / 1000 < exp (- 6 :: real)"
proof -
  have "1 / 1000 < 1 / exp (6::real)"
    using exp_6_less_1000 by (simp add: field_simps)
  also have "\<dots> = exp (- 6 :: real)"
    by (simp add: exp_minus field_simps)
  finally show ?thesis .
qed

text \<open>
  Every learning rate drawn for the submitted job lies between \<open>exp (-15)\<close> and
  \<open>exp (-3)\<close>, about \<open>3.06e-7\<close> and \<open>4.98e-2\<close>.
\<close>

lemma learning_rate_range:
  assumes "0 \<le> u" and "u \<le> 1"
  shows "\<exists>v. sample (hyperparameter_sampling hyperdrive_run_config) ''--learning-rate'' u = Some v
            \<and> exp (- 15) \<le> v \<and> v \<le> exp (- 3)"
proof -
  have "(- 15 :: real) \<le> - 15 + u * 12" and "- 15 + u * 12 \<le> (- 3 :: real)"
    using assms by simp_all
  then show ?thesis
    by (simp add: sample_def hyperdrive_run_config_def ps_def)
qed

text \<open>
  Claim C4. The claim bounds every learning rate sampled for the sweep by \<open>1e-3\<close>. The
  sampler the notebook configures is \<open>loguniform(-15, -3)\<close>; a uniform draw three
  quarters of the way from \<open>-15\<close> to \<open>-3\<close> gives the learning rate \<open>exp (-6)\<close>, about
  \<open>2.48e-3\<close>, which is above \<open>1e-3\<close>.
\<close>

theorem learning_rate_sample_above_bound:
  "sample (hyperparameter_sampling hyperdrive_run_config) ''--learning-rate'' (3 / 4) = Some (exp (- 6))
   \<and> 1 / 1000 < exp (- 6 :: real)"
  using one_thousandth_less_exp_minus_6
  by (simp add: sample_def hyperdrive_run_config_def ps_def)

section \<open>Properties of the early-termination check\<close>

text \<open>
  The example of the specification: with the notebook's policy (slack factor 0.15,
  evaluation interval 2) and a best metric of 0.90 at step 2, the trial that reports
  0.70 is cancelled and the trial that reports 0.80 goes on.
\<close>

lemma early_termination_example:
  "map status (early_termination MAXIMIZE early_termination_policy 2
      [\<lparr>trial_id = 0, hyperparameter = 1 / 1000, observations = [(2, 90 / 100)],
        status = RUNNING, final_metric = None\<rparr>,
       \<lparr>trial_id = 1, hyperparameter = 1 / 100, observations = [(2, 70 / 100)],
        status = RUNNING, final_metric = None\<rparr>,
       \<lparr>trial_id = 2, hyperparameter = 1 / 10, observations = [(2, 80 / 100)],
        status = RUNNING, final_metric = None\<rparr>]) = [RUNNING, CANCELLED, RUNNING]"
  by (simp add: early_termination_def early_termination_policy_def best_metric_so_far_def
      latest_metric_at_def worse_def threshold_def)

text \<open>
  Claim C8, as amended. With a slack factor of 0 the threshold is the best-so-far value
  itself: at an evaluation step a running trial that has reported at that step is
  cancelled exactly when its latest metric is strictly worse than the best-so-far
  value. The running trials that survive are those whose metric is not strictly worse
  than the best (they tie it), and those that have not reported at that step.
\<close>

theorem slack_zero_survivors:
  "evaluation_interval p dvd k \<and> slack_factor p = 0 \<and> best_metric_so_far g k ts = Some best \<and>
   i < length ts \<and> status (ts ! i) = RUNNING \<longrightarrow>
     status (early_termination g p k ts ! i) =
       (case latest_metric_at k (ts ! i) of
          None \<Rightarrow> RUNNING
        | Some m \<Rightarrow> if worse g m best then CANCELLED else RUNNING)"
  by (cases g) (auto simp: early_termination_def threshold_def split: option.splits)

text \<open>
  Two running trials that report 0.9 and 0.7 at step 2, slack factor 0: the second one,
  strictly worse than the best, is cancelled.
\<close>

theorem slack_zero_survivors_witness:
  "status (early_termination MAXIMIZE \<lparr>slack_factor = 0, evaluation_interval = 2\<rparr> 2
      [\<lparr>trial_id = 0, hyperparameter = 1 / 1000, observations = [(2, 9 / 10)],
        status = RUNNING, final_metric = None\<rparr>,
       \<lparr>trial_id = 1, hyperparameter = 1 / 100, observations = [(2, 7 / 10)],
        status = RUNNING, final_metric = None\<rparr>] ! 1) = CANCELLED"
  using slack_zero_survivors
          [of "\<lparr>slack_factor = 0, evaluation_interval = 2\<rparr>" 2 MAXIMIZE
              "[\<lparr>trial_id = 0, hyperparameter = 1 / 1000, observations = [(2, 9 / 10)],
                 status = RUNNING, final_metric = None\<rparr>,
                \<lparr>trial_id = 1, hyperparameter = 1 / 100, observations = [(2, 7 / 10)],
                 status = RUNNING, final_metric = None\<rparr>]" "9 / 10" 1]
  by (simp add: best_metric_so_far_def latest_metric_at_def worse_def)

text \<open>
  The claim as the specification words it, that with slack factor 0 the survivors are
  exactly the trials strictly worse than the best, fails on the same two trials: the
  trial at the best value 0.9 is not strictly worse than the best and survives, and
  the trial at 0.7 is strictly worse and does not.
\<close>

theorem slack_zero_counterexample:
  "best_metric_so_far MAXIMIZE 2
      [\<lparr>trial_id = 0, hyperparameter = 1 / 1000, observations = [(2, 9 / 10)],
        status = RUNNING, final_metric = None\<rparr>,
       \<lparr>trial_id = 1, hyperparameter = 1 / 100, observations = [(2, 7 / 10)],
        status = RUNNING, final_metric = None\<rparr>] = Some (9 / 10)
   \<and> map (latest_metric_at 2)
      [\<lparr>trial_id = 0, hyperparameter = 1 / 1000, observations = [(2, 9 / 10)],
        status = RUNNING, final_metric = None\<rparr>,
       \<lparr>trial_id = 1, hyperparameter = 1 / 100, observations = [(2, 7 / 10)],
        status = RUNNING, final_metric = None\<rparr>] = [Some (9 / 10), Some (7 / 10)]
   \<and> map status (early_termination MAXIMIZE \<lparr>slack_factor = 0, evaluation_interval = 2\<rparr> 2
      [\<lparr>trial_id = 0, hyperparameter = 1 / 1000, observations = [(2, 9 / 10)],
        status = RUNNING, final_metric = None\<rparr>,
       \<lparr>trial_id = 1, hyperparameter = 1 / 100, observations = [(2, 7 / 10)],
        status = RUNNING, final_metric = None\<rparr>]) = [RUNNING, CANCELLED]
   \<and> \<not> worse MAXIMIZE (9 / 10) (9 / 10)
   \<and> worse MAXIMIZE (7 / 10) (9 / 10)"
  by (simp add: early_termination_def best_metric_so_far_def latest_metric_at_def worse_def
      threshold_def)

end
